theory Spec2Isabelle
  imports Main
begin

section \<open>The HTTP environment of middleware.go\<close>

text \<open>
  A \<^verbatim>\<open>http.ResponseWriter\<close> and a \<^verbatim>\<open>*Router\<close> are references: the model keeps
  an explicit store and passes addresses around. Every address denotes an allocated
  object (no nil reference). A \<^verbatim>\<open>http.Header\<close> is Go's \<^verbatim>\<open>map[string][]string\<close>.
\<close>

type_synonym ResponseWriter = nat
type_synonym RouterRef = nat
type_synonym Header = "string \<rightharpoonup> string list"

text \<open>
  Modelled from the spec: the error values of the Matching Engine are declared outside
  middleware.go. The code compares a match error with the sentinel
  \<^verbatim>\<open>ErrMethodMismatch\<close> only; every other error value is \<open>ErrNotFound\<close> or \<open>Err msg\<close>.
\<close>

datatype error = ErrMethodMismatch | ErrNotFound | Err string

text \<open>
  Modelled from the spec: \<^verbatim>\<open>RouteMatch\<close> is the mutable match-result object that
  \<^verbatim>\<open>Route.Match\<close> fills in; middleware.go reads its field \<^verbatim>\<open>MatchErr\<close> only
  (\<open>None\<close> is Go's nil error). \<open>RouteMatch_zero\<close> is the value of \<^verbatim>\<open>var match RouteMatch\<close>.
\<close>

record RouteMatch =
  MatchErr :: "error option"

definition RouteMatch_zero :: RouteMatch where
  "RouteMatch_zero = \<lparr>MatchErr = None\<rparr>"

text \<open>
  The \<^verbatim>\<open>middleware\<close> interface has two implementations: a bare \<^verbatim>\<open>MiddlewareFunc\<close>
  and the struct \<^verbatim>\<open>MiddlewareFuncWithLogging{Handler, Name}\<close>. The type parameter is the
  type of the wrapped function value.
\<close>

datatype 'f middleware =
    MiddlewareFunc 'f
  | MiddlewareFuncWithLogging (Handler: 'f) (Name: string)

text \<open>
  Modelled from the spec: \<^verbatim>\<open>Route\<close> and \<^verbatim>\<open>Router\<close> are declared outside
  middleware.go, which uses a route's \<^verbatim>\<open>Match(req, &match)\<close> (the boolean result and
  the updated match object), its \<^verbatim>\<open>GetMethods()\<close> (Go's pair of a method list and an
  error) and the field \<^verbatim>\<open>middlewares\<close>; and a router's \<^verbatim>\<open>routes\<close> and
  \<^verbatim>\<open>middlewares\<close>. The two methods of the Matching Engine are taken as parameters:
  fields holding what the route answers.
\<close>

record ('q, 'f) Route =
  Match :: "'q \<Rightarrow> RouteMatch \<Rightarrow> bool \<times> RouteMatch"
  GetMethods :: "string list \<times> error option"
  middlewares :: "'f middleware list"

record ('q, 'f) Router =
  routes :: "('q, 'f) Route list"
  middlewares :: "'f middleware list"

text \<open>
  The world a handler runs in: the header map of every response writer, the lines written
  by \<^verbatim>\<open>log.Printf\<close>, the store of routers, and the list of calls that reached the
  recording handler \<open>terminal\<close> below (written by that handler only).
\<close>

record ('q, 'f) World =
  headers :: "ResponseWriter \<Rightarrow> Header"
  log_output :: "string list"
  heap :: "RouterRef \<Rightarrow> ('q, 'f) Router"
  served :: "(ResponseWriter \<times> 'q) list"

type_synonym ('q, 'f) Handler =
  "ResponseWriter \<Rightarrow> 'q \<Rightarrow> ('q, 'f) World \<Rightarrow> ('q, 'f) World"

type_synonym ('q, 'f) MiddlewareFunc = "('q, 'f) Handler \<Rightarrow> ('q, 'f) Handler"

text \<open>\<^verbatim>\<open>log.Printf(format, args)\<close>: one record appended to the log output.\<close>

definition log_Printf :: "string \<Rightarrow> ('q, 'f) World \<Rightarrow> ('q, 'f) World" where
  "log_Printf line s = s\<lparr>log_output := log_output s @ [line]\<rparr>"

text \<open>
  \<^verbatim>\<open>w.Header().Set(key, value)\<close>: the entry for the key becomes the one-element list.
  (The key used by middleware.go is already in canonical MIME form.)
\<close>

definition Header_Set ::
  "ResponseWriter \<Rightarrow> string \<Rightarrow> string \<Rightarrow> ('q, 'f) World \<Rightarrow> ('q, 'f) World" where
  "Header_Set w key val s = s\<lparr>headers := (headers s)(w := (headers s w)(key \<mapsto> [val]))\<rparr>"

text \<open>\<^verbatim>\<open>strings.Join(elems, sep)\<close>.\<close>

fun strings_Join :: "string list \<Rightarrow> string \<Rightarrow> string" where
  "strings_Join [] sep = []"
| "strings_Join [a] sep = a"
| "strings_Join (a # b # rest) sep = a @ sep @ strings_Join (b # rest) sep"

definition MethodOptions :: string where
  "MethodOptions = ''OPTIONS''"

text \<open>A handler that records the call it receives and does nothing else.\<close>

definition terminal :: "('q, 'f) Handler" where
  "terminal w req s = s\<lparr>served := served s @ [(w, req)]\<rparr>"

section \<open>The middleware chain\<close>

text \<open>\<^verbatim>\<open>func (mw MiddlewareFunc) Middleware\<close> and
  \<^verbatim>\<open>func (mw MiddlewareFuncWithLogging) Middleware\<close>.\<close>

fun Middleware :: "(('q, 'f) MiddlewareFunc) middleware \<Rightarrow> ('q, 'f) Handler \<Rightarrow> ('q, 'f) Handler" where
  "Middleware (MiddlewareFunc mw) handler = mw handler"
| "Middleware (MiddlewareFuncWithLogging mw name) handler =
     mw (\<lambda>w r s. handler w r (log_Printf (''Executing middleware: '' @ name) s))"

text \<open>The loop of \<^verbatim>\<open>Use\<close>: each function is appended to the chain in turn.\<close>

fun Use_loop :: "'f middleware list \<Rightarrow> 'f list \<Rightarrow> 'f middleware list" where
  "Use_loop ms [] = ms"
| "Use_loop ms (fn # mwf) = Use_loop (ms @ [MiddlewareFunc fn]) mwf"

definition Router_Use :: "('q, 'f) Router \<Rightarrow> 'f list \<Rightarrow> ('q, 'f) Router" where
  "Router_Use r mwf = r\<lparr>Router.middlewares := Use_loop (Router.middlewares r) mwf\<rparr>"

definition Router_useInterface :: "('q, 'f) Router \<Rightarrow> 'f middleware \<Rightarrow> ('q, 'f) Router" where
  "Router_useInterface r mw = r\<lparr>Router.middlewares := Router.middlewares r @ [mw]\<rparr>"

definition Router_UseWithLogging :: "('q, 'f) Router \<Rightarrow> string \<Rightarrow> 'f \<Rightarrow> ('q, 'f) Router" where
  "Router_UseWithLogging r name mw = Router_useInterface r (MiddlewareFuncWithLogging mw name)"

definition Route_Use :: "('q, 'f) Route \<Rightarrow> 'f list \<Rightarrow> ('q, 'f) Route" where
  "Route_Use r mwf = r\<lparr>Route.middlewares := Use_loop (Route.middlewares r) mwf\<rparr>"

definition Route_useInterface :: "('q, 'f) Route \<Rightarrow> 'f middleware \<Rightarrow> ('q, 'f) Route" where
  "Route_useInterface r mw = r\<lparr>Route.middlewares := Route.middlewares r @ [mw]\<rparr>"

definition Route_UseWithLogging :: "('q, 'f) Route \<Rightarrow> string \<Rightarrow> 'f \<Rightarrow> ('q, 'f) Route" where
  "Route_UseWithLogging r name mw = Route_useInterface r (MiddlewareFuncWithLogging mw name)"

section \<open>The CORS method middleware\<close>

text \<open>
  The loop of \<^verbatim>\<open>getAllMethodsForRoute\<close> over \<^verbatim>\<open>r.routes\<close>, with the accumulator
  \<^verbatim>\<open>allMethods\<close>. The result is Go's pair: the list and the error (the nil list is
  the empty list).
\<close>

fun getAllMethods_loop ::
  "('q, 'f) Route list \<Rightarrow> 'q \<Rightarrow> string list \<Rightarrow> string list \<times> error option" where
  "getAllMethods_loop [] req allMethods = (allMethods, None)"
| "getAllMethods_loop (route # rest) req allMethods =
     (case Match route req RouteMatch_zero of
        (ok, match) \<Rightarrow>
          if ok \<or> MatchErr match = Some ErrMethodMismatch then
            (case GetMethods route of
               (methods, Some err) \<Rightarrow> ([], Some err)
             | (methods, None) \<Rightarrow> getAllMethods_loop rest req (allMethods @ methods))
          else getAllMethods_loop rest req allMethods)"

definition getAllMethodsForRoute ::
  "('q, 'f) Router \<Rightarrow> 'q \<Rightarrow> string list \<times> error option" where
  "getAllMethodsForRoute r req = getAllMethods_loop (routes r) req []"

text \<open>
  The loop \<^verbatim>\<open>for _, v := range allMethods\<close> of the CORS handler: the header is set at
  every element that equals \<^verbatim>\<open>http.MethodOptions\<close>.
\<close>

fun setAllowMethods_loop ::
  "string list \<Rightarrow> string list \<Rightarrow> ResponseWriter \<Rightarrow> ('q, 'f) World \<Rightarrow> ('q, 'f) World" where
  "setAllowMethods_loop [] allMethods w s = s"
| "setAllowMethods_loop (v # vs) allMethods w s =
     setAllowMethods_loop vs allMethods w
       (if v = MethodOptions
        then Header_Set w ''Access-Control-Allow-Methods'' (strings_Join allMethods '','') s
        else s)"

text \<open>
  \<^verbatim>\<open>CORSMethodMiddleware(r)\<close> captures the reference \<open>r\<close>; the router is read from the
  store when the handler runs.
\<close>

definition CORSMethodMiddleware :: "RouterRef \<Rightarrow> ('q, 'f) MiddlewareFunc" where
  "CORSMethodMiddleware r next w req s =
     (case getAllMethodsForRoute (heap s r) req of
        (allMethods, err) \<Rightarrow>
          next w req (if err = None then setAllowMethods_loop allMethods allMethods w s else s))"

section \<open>Notions of the specification and example inputs\<close>

text \<open>
  The inclusion rule in the spec's words: a route contributes its methods when its match
  succeeded or the mismatch kind it left is the method mismatch.
\<close>

definition contributes :: "'q \<Rightarrow> ('q, 'f) Route \<Rightarrow> bool" where
  "contributes req route =
     (fst (Match route req RouteMatch_zero)
      \<or> MatchErr (snd (Match route req RouteMatch_zero)) = Some ErrMethodMismatch)"

text \<open>
  The logging adapter in the spec's words: the handler first emits the log record, then
  invokes the handler produced by the wrapped interceptor.
\<close>

definition LoggingAdapter_spec ::
  "('q, 'f) MiddlewareFunc \<Rightarrow> string \<Rightarrow> ('q, 'f) Handler \<Rightarrow> ('q, 'f) Handler" where
  "LoggingAdapter_spec mw name handler w r s =
     mw handler w r (log_Printf (''Executing middleware: '' @ name) s)"

text \<open>An interceptor that answers by itself and never delegates.\<close>

definition deny :: "('q, 'f) MiddlewareFunc" where
  "deny next w r s = Header_Set w ''X-Denied'' ''1'' s"

text \<open>An interceptor that writes a log line of its own and then delegates.\<close>

definition announce :: "('q, 'f) MiddlewareFunc" where
  "announce next w r s = next w r (log_Printf ''wrapped handler runs'' s)"

text \<open>A request as the example routes see it: \<^verbatim>\<open>req.Method\<close> and \<^verbatim>\<open>req.URL.Path\<close>.\<close>

record Request =
  Method :: string
  Path :: string

text \<open>
  Modelled from the spec: the Matching Engine (\<^verbatim>\<open>Route.Match\<close> and
  \<^verbatim>\<open>Route.GetMethods\<close>, declared outside middleware.go) for a route given by a path
  and a method list. The match fails with a non-method mismatch when the path differs;
  it fails with the method mismatch when the path agrees and the method alone differs;
  otherwise it succeeds. \<^verbatim>\<open>GetMethods\<close> reports the method list, without error.
\<close>

definition pathRoute :: "string \<Rightarrow> string list \<Rightarrow> (Request, 'f) Route" where
  "pathRoute path methods =
     \<lparr>Match = (\<lambda>req match.
         if Path req \<noteq> path then (False, match\<lparr>MatchErr := Some ErrNotFound\<rparr>)
         else if Method req \<in> set methods then (True, match)
         else (False, match\<lparr>MatchErr := Some ErrMethodMismatch\<rparr>)),
      GetMethods = (methods, None),
      middlewares = []\<rparr>"

text \<open>A route whose method report fails (a route without a method matcher).\<close>

definition noMethodsRoute :: "string \<Rightarrow> (Request, 'f) Route" where
  "noMethodsRoute path =
     \<lparr>Match = (\<lambda>req match.
         if Path req \<noteq> path then (False, match\<lparr>MatchErr := Some ErrNotFound\<rparr>)
         else (True, match)),
      GetMethods = ([], Some (Err ''mux: route doesn't have methods'')),
      middlewares = []\<rparr>"

text \<open>A world with one router, at address 0, holding the given routes; nothing else yet.\<close>

definition world_with :: "(Request, unit) Route list \<Rightarrow> (Request, unit) World" where
  "world_with rs =
     \<lparr>headers = (\<lambda>w. Map.empty), log_output = [],
      heap = (\<lambda>r. \<lparr>routes = rs, middlewares = []\<rparr>), served = []\<rparr>"

definition options_x :: Request where
  "options_x = \<lparr>Method = ''OPTIONS'', Path = ''/x''\<rparr>"

section \<open>Use and UseWithLogging\<close>

lemma Use_loop_append: "Use_loop ms mwf = ms @ map MiddlewareFunc mwf"
  by (induction mwf arbitrary: ms) simp_all

text \<open>
  C5. \<^verbatim>\<open>Use\<close> on a Router or a Route appends the given interceptors to that
  container's chain in argument order; the old chain stays as a prefix, unchanged; two
  calls add up (Use [A, B] then Use [C] gives the old chain followed by A, B, C); the
  other fields of the container are untouched.
\<close>

theorem Use_appends_in_order:
  "Router.middlewares (Router_Use r mwf) = Router.middlewares r @ map MiddlewareFunc mwf
   \<and> routes (Router_Use r mwf) = routes r
   \<and> Router.middlewares (Router_Use (Router_Use r [A, B]) [C]) =
       Router.middlewares r @ [MiddlewareFunc A, MiddlewareFunc B, MiddlewareFunc C]
   \<and> Router.middlewares (Router_Use (Router_Use r mwf) mwf') =
       Router.middlewares (Router_Use r (mwf @ mwf'))
   \<and> take (length (Router.middlewares r)) (Router.middlewares (Router_Use r mwf)) =
       Router.middlewares r
   \<and> Route.middlewares (Route_Use rt mwf) = Route.middlewares rt @ map MiddlewareFunc mwf
   \<and> Match (Route_Use rt mwf) = Match rt
   \<and> GetMethods (Route_Use rt mwf) = GetMethods rt
   \<and> Route.middlewares (Route_Use (Route_Use rt [A, B]) [C]) =
       Route.middlewares rt @ [MiddlewareFunc A, MiddlewareFunc B, MiddlewareFunc C]
   \<and> Route.middlewares (Route_Use (Route_Use rt mwf) mwf') =
       Route.middlewares (Route_Use rt (mwf @ mwf'))
   \<and> take (length (Route.middlewares rt)) (Route.middlewares (Route_Use rt mwf)) =
       Route.middlewares rt"
  by (simp add: Router_Use_def Route_Use_def Use_loop_append)

text \<open>
  C6. \<^verbatim>\<open>UseWithLogging(name, mw)\<close> appends exactly one element, the
  \<^verbatim>\<open>MiddlewareFuncWithLogging\<close> wrapping \<open>mw\<close> with that name, to the same chain
  \<^verbatim>\<open>Use\<close> appends to, and leaves the earlier entries and the other fields unchanged:
  the chain grows as it does when one plain interceptor is appended.
\<close>

theorem UseWithLogging_appends_one:
  "Router.middlewares (Router_UseWithLogging r name mw) =
       Router.middlewares r @ [MiddlewareFuncWithLogging mw name]
   \<and> routes (Router_UseWithLogging r name mw) = routes r
   \<and> length (Router.middlewares (Router_UseWithLogging r name mw)) =
       length (Router.middlewares (Router_Use r [mw]))
   \<and> butlast (Router.middlewares (Router_UseWithLogging r name mw)) =
       butlast (Router.middlewares (Router_Use r [mw]))
   \<and> Route.middlewares (Route_UseWithLogging rt name mw) =
       Route.middlewares rt @ [MiddlewareFuncWithLogging mw name]
   \<and> Match (Route_UseWithLogging rt name mw) = Match rt
   \<and> GetMethods (Route_UseWithLogging rt name mw) = GetMethods rt
   \<and> length (Route.middlewares (Route_UseWithLogging rt name mw)) =
       length (Route.middlewares (Route_Use rt [mw]))
   \<and> butlast (Route.middlewares (Route_UseWithLogging rt name mw)) =
       butlast (Route.middlewares (Route_Use rt [mw]))"
  by (simp add: Router_UseWithLogging_def Router_useInterface_def Router_Use_def
      Route_UseWithLogging_def Route_useInterface_def Route_Use_def)

section \<open>Aggregation of methods\<close>

lemma Header_Set_idem: "Header_Set w k v (Header_Set w k v s) = Header_Set w k v s"
  by (simp add: Header_Set_def)

lemma setAllowMethods_loop_eq:
  "setAllowMethods_loop vs allMethods w s =
     (if MethodOptions \<in> set vs
      then Header_Set w ''Access-Control-Allow-Methods'' (strings_Join allMethods '','') s
      else s)"
  by (induction vs arbitrary: s) (simp_all add: Header_Set_idem)

lemma getAllMethods_loop_step:
  "getAllMethods_loop (route # rest) req acc =
     (if contributes req route then
        (case snd (GetMethods route) of
           Some err \<Rightarrow> ([], Some err)
         | None \<Rightarrow> getAllMethods_loop rest req (acc @ fst (GetMethods route)))
      else getAllMethods_loop rest req acc)"
  by (cases "Match route req RouteMatch_zero"; cases "GetMethods route")
     (simp add: contributes_def split: option.splits)

lemma getAllMethods_loop_eq:
  "getAllMethods_loop rs req acc =
     (case find (\<lambda>rt. snd (GetMethods rt) \<noteq> None) (filter (contributes req) rs) of
        Some rt \<Rightarrow> ([], snd (GetMethods rt))
      | None \<Rightarrow> (acc @ concat (map (\<lambda>rt. fst (GetMethods rt)) (filter (contributes req) rs)), None))"
proof (induction rs arbitrary: acc)
  case Nil
  show ?case by simp
next
  case (Cons route rest)
  show ?case
    unfolding getAllMethods_loop_step Cons.IH
    by (cases "snd (GetMethods route)") (simp_all split: option.splits)
qed

lemma CORS_eq:
  "CORSMethodMiddleware r next w req s =
     next w req
       (if snd (getAllMethodsForRoute (heap s r) req) = None
           \<and> MethodOptions \<in> set (fst (getAllMethodsForRoute (heap s r) req))
        then Header_Set w ''Access-Control-Allow-Methods''
               (strings_Join (fst (getAllMethodsForRoute (heap s r) req)) '','') s
        else s)"
  by (cases "getAllMethodsForRoute (heap s r) req")
     (simp add: CORSMethodMiddleware_def setAllowMethods_loop_eq)

text \<open>
  C1. The aggregate \<^verbatim>\<open>getAllMethodsForRoute\<close> returns is the concatenation, in the order
  of the route list and with duplicates kept, of the method lists of exactly the routes
  whose match succeeded or left the method-mismatch error (and it is returned when each of
  those routes reports its methods without error); a route with any other outcome
  contributes nothing: the result is the same as without it.
\<close>

theorem getAllMethodsForRoute_aggregate:
  "((getAllMethodsForRoute r req = (allMethods, None)) =
      (list_all (\<lambda>rt. snd (GetMethods rt) = None) (filter (contributes req) (routes r))
       \<and> allMethods =
           concat (map (\<lambda>rt. fst (GetMethods rt)) (filter (contributes req) (routes r)))))
   \<and> (\<not> contributes req route \<longrightarrow>
        getAllMethodsForRoute (r\<lparr>routes := before @ route # after\<rparr>) req =
        getAllMethodsForRoute (r\<lparr>routes := before @ after\<rparr>) req)"
proof (intro conjI impI)
  let ?inc = "filter (contributes req) (routes r)"
  have "find (\<lambda>rt. snd (GetMethods rt) \<noteq> None) ?inc = None
          \<longleftrightarrow> list_all (\<lambda>rt. snd (GetMethods rt) = None) ?inc"
    by (auto simp: find_None_iff list_all_iff)
  then show "(getAllMethodsForRoute r req = (allMethods, None)) =
     (list_all (\<lambda>rt. snd (GetMethods rt) = None) ?inc
      \<and> allMethods = concat (map (\<lambda>rt. fst (GetMethods rt)) ?inc))"
    by (auto simp: getAllMethodsForRoute_def getAllMethods_loop_eq split: option.splits
        dest: find_Some_iff[THEN iffD1])
next
  assume "\<not> contributes req route"
  then show "getAllMethodsForRoute (r\<lparr>routes := before @ route # after\<rparr>) req =
     getAllMethodsForRoute (r\<lparr>routes := before @ after\<rparr>) req"
    by (simp add: getAllMethodsForRoute_def getAllMethods_loop_eq cong: option.case_cong)
qed

theorem getAllMethodsForRoute_aggregate_witness:
  "getAllMethodsForRoute
     (\<lparr>routes = [pathRoute ''/x'' [''GET''],
                 pathRoute ''/z'' [''GET'', ''POST'', ''OPTIONS'', ''DELETE''],
                 pathRoute ''/x'' [''OPTIONS'', ''POST'', ''GET'']],
       middlewares = []\<rparr> :: (Request, unit) Router) options_x
     = ([''GET'', ''OPTIONS'', ''POST'', ''GET''], None)
   \<and> \<not> contributes options_x
         (pathRoute ''/z'' [''GET'', ''POST'', ''OPTIONS'', ''DELETE''] :: (Request, unit) Route)
   \<and> getAllMethodsForRoute
       (\<lparr>routes = [pathRoute ''/x'' [''GET''],
                   pathRoute ''/x'' [''OPTIONS'', ''POST'', ''GET'']],
         middlewares = []\<rparr> :: (Request, unit) Router) options_x
     = ([''GET'', ''OPTIONS'', ''POST'', ''GET''], None)"
  using getAllMethodsForRoute_aggregate
    [where r = "\<lparr>routes = [pathRoute ''/x'' [''GET''],
                 pathRoute ''/z'' [''GET'', ''POST'', ''OPTIONS'', ''DELETE''],
                 pathRoute ''/x'' [''OPTIONS'', ''POST'', ''GET'']],
       middlewares = []\<rparr> :: (Request, unit) Router"
      and req = options_x
      and allMethods = "[''GET'', ''OPTIONS'', ''POST'', ''GET'']"
      and route = "pathRoute ''/z'' [''GET'', ''POST'', ''OPTIONS'', ''DELETE'']"
      and before = "[pathRoute ''/x'' [''GET'']]"
      and after = "[pathRoute ''/x'' [''OPTIONS'', ''POST'', ''GET'']]"]
  by (simp add: getAllMethodsForRoute_def contributes_def pathRoute_def options_x_def
      RouteMatch_zero_def)

section \<open>The handler of the CORS method middleware\<close>

text \<open>
  C2. When the aggregation succeeds, the handler sets the response header
  Access-Control-Allow-Methods of its response writer to the aggregate joined by commas
  (order and duplicates as collected) exactly when the aggregate contains OPTIONS, and
  leaves the world as it is otherwise, before it calls the next handler. For the routes
  /x [GET] and /x [OPTIONS, POST], registered in that order, the request OPTIONS /x
  gives the header value GET,OPTIONS,POST.
\<close>

theorem CORS_sets_Allow_Methods:
  "(getAllMethodsForRoute (heap s r) req = (allMethods, None) \<longrightarrow>
      CORSMethodMiddleware r nxt w req s =
        nxt w req
          (if MethodOptions \<in> set allMethods
           then s\<lparr>headers := (headers s)(w := (headers s w)
                  (''Access-Control-Allow-Methods'' \<mapsto> [strings_Join allMethods '','']))\<rparr>
           else s))
   \<and> CORSMethodMiddleware 0 nxt' w options_x
         (world_with [pathRoute ''/x'' [''GET''], pathRoute ''/x'' [''OPTIONS'', ''POST'']])
       = nxt' w options_x
           (Header_Set w ''Access-Control-Allow-Methods'' ''GET,OPTIONS,POST''
              (world_with [pathRoute ''/x'' [''GET''], pathRoute ''/x'' [''OPTIONS'', ''POST'']]))
   \<and> headers (CORSMethodMiddleware 0 terminal w options_x
         (world_with [pathRoute ''/x'' [''GET''], pathRoute ''/x'' [''OPTIONS'', ''POST'']]))
        w ''Access-Control-Allow-Methods'' = Some [''GET,OPTIONS,POST'']"
proof (intro conjI impI)
  assume "getAllMethodsForRoute (heap s r) req = (allMethods, None)"
  then show "CORSMethodMiddleware r nxt w req s =
        nxt w req
          (if MethodOptions \<in> set allMethods
           then s\<lparr>headers := (headers s)(w := (headers s w)
                  (''Access-Control-Allow-Methods'' \<mapsto> [strings_Join allMethods '','']))\<rparr>
           else s)"
    by (simp add: CORS_eq Header_Set_def)
next
  let ?W = "world_with [pathRoute ''/x'' [''GET''], pathRoute ''/x'' [''OPTIONS'', ''POST'']]"
  have agg: "getAllMethodsForRoute (heap ?W 0) options_x = ([''GET'', ''OPTIONS'', ''POST''], None)"
    by (simp add: getAllMethodsForRoute_def world_with_def pathRoute_def options_x_def
        RouteMatch_zero_def)
  show eq: "CORSMethodMiddleware 0 nxt' w options_x ?W =
      nxt' w options_x (Header_Set w ''Access-Control-Allow-Methods'' ''GET,OPTIONS,POST'' ?W)"
    for nxt' :: "(Request, unit) Handler"
    by (simp add: CORS_eq agg MethodOptions_def)
  show "headers (CORSMethodMiddleware 0 terminal w options_x ?W)
        w ''Access-Control-Allow-Methods'' = Some [''GET,OPTIONS,POST'']"
    by (simp add: eq terminal_def Header_Set_def)
qed

theorem CORS_sets_Allow_Methods_witness:
  "getAllMethodsForRoute
      (heap (world_with [pathRoute ''/x'' [''GET'', ''OPTIONS''], pathRoute ''/x'' [''GET'']]) 0)
      options_x = ([''GET'', ''OPTIONS'', ''GET''], None)
   \<and> CORSMethodMiddleware 0 terminal 7 options_x
        (world_with [pathRoute ''/x'' [''GET'', ''OPTIONS''], pathRoute ''/x'' [''GET'']])
      = terminal 7 options_x
          ((world_with [pathRoute ''/x'' [''GET'', ''OPTIONS''], pathRoute ''/x'' [''GET'']])
             \<lparr>headers := (\<lambda>w. Map.empty)
                (7 := [''Access-Control-Allow-Methods'' \<mapsto> [''GET,OPTIONS,GET'']])\<rparr>)
   \<and> getAllMethodsForRoute (heap (world_with [pathRoute ''/y'' [''GET'']]) 0)
        \<lparr>Method = ''OPTIONS'', Path = ''/y''\<rparr> = ([''GET''], None)
   \<and> CORSMethodMiddleware 0 terminal 7 \<lparr>Method = ''OPTIONS'', Path = ''/y''\<rparr>
        (world_with [pathRoute ''/y'' [''GET'']])
      = terminal 7 \<lparr>Method = ''OPTIONS'', Path = ''/y''\<rparr> (world_with [pathRoute ''/y'' [''GET'']])"
proof -
  let ?W = "world_with [pathRoute ''/x'' [''GET'', ''OPTIONS''], pathRoute ''/x'' [''GET'']]"
  let ?Y = "world_with [pathRoute ''/y'' [''GET'']]"
  let ?y = "\<lparr>Method = ''OPTIONS'', Path = ''/y''\<rparr>"
  have a: "getAllMethodsForRoute (heap ?W 0) options_x = ([''GET'', ''OPTIONS'', ''GET''], None)"
    by (simp add: getAllMethodsForRoute_def world_with_def pathRoute_def options_x_def
        RouteMatch_zero_def)
  have b: "getAllMethodsForRoute (heap ?Y 0) ?y = ([''GET''], None)"
    by (simp add: getAllMethodsForRoute_def world_with_def pathRoute_def RouteMatch_zero_def)
  have h: "headers ?W = (\<lambda>w. Map.empty)"
    by (simp add: world_with_def)
  from a b h
    CORS_sets_Allow_Methods[where s = ?W and r = 0 and req = options_x and w = 7
      and allMethods = "[''GET'', ''OPTIONS'', ''GET'']" and nxt = terminal]
    CORS_sets_Allow_Methods[where s = ?Y and r = 0 and req = ?y and w = 7
      and allMethods = "[''GET'']" and nxt = terminal]
  show ?thesis
    by (simp add: MethodOptions_def)
qed

lemma find_filter: "find P (filter Q xs) = find (\<lambda>x. Q x \<and> P x) xs"
  by (induction xs) simp_all

text \<open>
  C3. When \<^verbatim>\<open>GetMethods\<close> fails for a route that contributes, the aggregation stops at
  the first such route in the list and returns that route's error with the nil list,
  whatever was collected before; the handler then sets no header and calls the next
  handler on the unchanged world.
\<close>

theorem GetMethods_error_aborts_aggregation:
  assumes "route \<in> set (routes (heap s r))"
    and "contributes req route"
    and "snd (GetMethods route) \<noteq> None"
  shows "\<exists>failing err.
      find (\<lambda>rt. contributes req rt \<and> snd (GetMethods rt) \<noteq> None) (routes (heap s r))
        = Some failing
      \<and> snd (GetMethods failing) = Some err
      \<and> getAllMethodsForRoute (heap s r) req = ([], Some err)
      \<and> CORSMethodMiddleware r nxt w req s = nxt w req s"
proof -
  let ?P = "\<lambda>rt. contributes req rt \<and> snd (GetMethods rt) \<noteq> None"
  from assms have "find ?P (routes (heap s r)) \<noteq> None"
    by (auto simp: find_None_iff)
  then obtain failing where f: "find ?P (routes (heap s r)) = Some failing"
    by auto
  then have "?P failing"
    by (auto simp: find_Some_iff)
  then obtain err where e: "snd (GetMethods failing) = Some err"
    by auto
  have g: "getAllMethodsForRoute (heap s r) req = ([], Some err)"
    unfolding getAllMethodsForRoute_def getAllMethods_loop_eq find_filter f
    by (simp add: e)
  have "CORSMethodMiddleware r nxt w req s = nxt w req s"
    by (simp add: CORS_eq g)
  with f e g show ?thesis
    by blast
qed

theorem GetMethods_error_aborts_aggregation_witness:
  "noMethodsRoute ''/x''
     \<in> set (routes (heap (world_with
          [pathRoute ''/x'' [''OPTIONS''], noMethodsRoute ''/x'', pathRoute ''/x'' [''GET'']]) 0))
   \<and> contributes options_x (noMethodsRoute ''/x'' :: (Request, unit) Route)
   \<and> getAllMethodsForRoute
        (heap (world_with
          [pathRoute ''/x'' [''OPTIONS''], noMethodsRoute ''/x'', pathRoute ''/x'' [''GET'']]) 0)
        options_x = ([], Some (Err ''mux: route doesn't have methods''))
   \<and> CORSMethodMiddleware 0 terminal 7 options_x
        (world_with
          [pathRoute ''/x'' [''OPTIONS''], noMethodsRoute ''/x'', pathRoute ''/x'' [''GET'']])
      = terminal 7 options_x
          (world_with
            [pathRoute ''/x'' [''OPTIONS''], noMethodsRoute ''/x'', pathRoute ''/x'' [''GET'']])"
proof -
  let ?rs = "[pathRoute ''/x'' [''OPTIONS''], noMethodsRoute ''/x'', pathRoute ''/x'' [''GET'']]
               :: (Request, unit) Route list"
  have m: "noMethodsRoute ''/x'' \<in> set (routes (heap (world_with ?rs) 0))"
    by (simp add: world_with_def)
  have c: "contributes options_x (noMethodsRoute ''/x'' :: (Request, unit) Route)"
    by (simp add: contributes_def noMethodsRoute_def options_x_def RouteMatch_zero_def)
  have e: "snd (GetMethods (noMethodsRoute ''/x'' :: (Request, unit) Route)) \<noteq> None"
    by (simp add: noMethodsRoute_def)
  have a: "getAllMethodsForRoute (heap (world_with ?rs) 0) options_x
             = ([], Some (Err ''mux: route doesn't have methods''))"
    by (simp add: getAllMethodsForRoute_def world_with_def pathRoute_def noMethodsRoute_def
        options_x_def RouteMatch_zero_def)
  from GetMethods_error_aborts_aggregation[OF m c e, where nxt = terminal and w = 7]
  have "CORSMethodMiddleware 0 terminal 7 options_x (world_with ?rs)
          = terminal 7 options_x (world_with ?rs)"
    by blast
  with m c a show ?thesis
    by simp
qed

text \<open>
  C4. Whatever the aggregation gives (OPTIONS collected, no OPTIONS collected, or an
  error), the handler is one call of the next handler, on the response writer and the
  request it received: one world is handed to whichever next handler is installed, and a
  next handler that records its calls records exactly this one.
\<close>

theorem CORS_calls_next_exactly_once:
  "(\<exists>s'. \<forall>nxt. CORSMethodMiddleware r nxt w req s = nxt w req s')
   \<and> served (CORSMethodMiddleware r terminal w req s) = served s @ [(w, req)]"
proof
  show "\<exists>s'. \<forall>nxt. CORSMethodMiddleware r nxt w req s = nxt w req s'"
    by (subst CORS_eq) (rule exI, rule allI, rule refl)
  show "served (CORSMethodMiddleware r terminal w req s) = served s @ [(w, req)]"
    by (simp add: CORS_eq terminal_def Header_Set_def)
qed

theorem CORS_calls_next_exactly_once_witness:
  "served (CORSMethodMiddleware 0 terminal 7 options_x
       (world_with [pathRoute ''/x'' [''GET''], pathRoute ''/x'' [''OPTIONS'', ''POST'']]))
     = [(7, options_x)]
   \<and> served (CORSMethodMiddleware 0 terminal 7 options_x (world_with [pathRoute ''/x'' [''GET'']]))
     = [(7, options_x)]
   \<and> served (CORSMethodMiddleware 0 terminal 7 options_x
       (world_with [pathRoute ''/x'' [''OPTIONS''], noMethodsRoute ''/x'']))
     = [(7, options_x)]"
  using
    CORS_calls_next_exactly_once[of 0 7 options_x
      "world_with [pathRoute ''/x'' [''GET''], pathRoute ''/x'' [''OPTIONS'', ''POST'']]"]
    CORS_calls_next_exactly_once[of 0 7 options_x "world_with [pathRoute ''/x'' [''GET'']]"]
    CORS_calls_next_exactly_once[of 0 7 options_x
      "world_with [pathRoute ''/x'' [''OPTIONS''], noMethodsRoute ''/x'']"]
  by (simp add: world_with_def)

text \<open>
  C9. With an empty route list the aggregation returns the empty list and no error, and
  the handler calls the next handler on the unchanged world: no header is set.
\<close>

theorem empty_router_sets_no_header:
  "routes (heap s r) = [] \<Longrightarrow>
     getAllMethodsForRoute (heap s r) req = ([], None)
     \<and> CORSMethodMiddleware r nxt w req s = nxt w req s"
  by (simp add: CORS_eq getAllMethodsForRoute_def)

theorem empty_router_sets_no_header_witness:
  "routes (heap (world_with []) 0) = []
   \<and> getAllMethodsForRoute (heap (world_with []) 0) options_x = ([], None)
   \<and> CORSMethodMiddleware 0 terminal 7 options_x (world_with [])
       = terminal 7 options_x (world_with [])
   \<and> headers (CORSMethodMiddleware 0 terminal 7 options_x (world_with []))
        7 ''Access-Control-Allow-Methods'' = None"
proof -
  have e: "routes (heap (world_with []) 0) = []"
    by (simp add: world_with_def)
  have h: "headers (terminal 7 options_x (world_with [])) 7 ''Access-Control-Allow-Methods'' = None"
    by (simp add: terminal_def world_with_def)
  from e h empty_router_sets_no_header[OF e, where req = options_x and nxt = terminal and w = 7]
  show ?thesis
    by simp
qed

text \<open>
  C10. The world the handler hands to the next handler differs from the one it received
  at most in the entry Access-Control-Allow-Methods of its own response writer: every
  other header of every writer, the log, the routers and the recorded calls are the same,
  and the next handler gets the same writer and request.
\<close>

theorem CORS_frame:
  "\<exists>s'. (\<forall>nxt. CORSMethodMiddleware r nxt w req s = nxt w req s')
     \<and> log_output s' = log_output s \<and> heap s' = heap s \<and> served s' = served s
     \<and> (\<forall>w' key. (w', key) \<noteq> (w, ''Access-Control-Allow-Methods'')
           \<longrightarrow> headers s' w' key = headers s w' key)"
proof -
  let ?s' = "if snd (getAllMethodsForRoute (heap s r) req) = None
           \<and> MethodOptions \<in> set (fst (getAllMethodsForRoute (heap s r) req))
        then Header_Set w ''Access-Control-Allow-Methods''
               (strings_Join (fst (getAllMethodsForRoute (heap s r) req)) '','') s
        else s"
  have "\<forall>nxt. CORSMethodMiddleware r nxt w req s = nxt w req ?s'"
    by (simp add: CORS_eq)
  moreover have "log_output ?s' = log_output s" "heap ?s' = heap s" "served ?s' = served s"
    by (simp_all add: Header_Set_def)
  moreover have "\<forall>w' key. (w', key) \<noteq> (w, ''Access-Control-Allow-Methods'')
           \<longrightarrow> headers ?s' w' key = headers s w' key"
    by (simp add: Header_Set_def)
  ultimately show ?thesis
    by blast
qed

theorem CORS_frame_witness:
  "\<exists>s'. (\<forall>nxt. CORSMethodMiddleware 0 nxt 7 options_x
              ((world_with [pathRoute ''/x'' [''GET''], pathRoute ''/x'' [''OPTIONS'', ''POST'']])
                 \<lparr>headers := (\<lambda>w. [''Content-Type'' \<mapsto> [''text/plain'']])\<rparr>)
            = nxt 7 options_x s')
     \<and> headers s' 7 ''Content-Type'' = Some [''text/plain'']
     \<and> headers s' 8 ''Access-Control-Allow-Methods'' = None
     \<and> headers s' 7 ''Access-Control-Allow-Methods'' = Some [''GET,OPTIONS,POST'']
     \<and> log_output s' = [] \<and> served s' = []"
proof -
  let ?W = "(world_with [pathRoute ''/x'' [''GET''], pathRoute ''/x'' [''OPTIONS'', ''POST'']])
              \<lparr>headers := (\<lambda>w. [''Content-Type'' \<mapsto> [''text/plain'']])\<rparr>"
  from CORS_frame[of 0 7 options_x ?W]
  obtain s' where call: "\<forall>nxt. CORSMethodMiddleware 0 nxt 7 options_x ?W = nxt 7 options_x s'"
    and log: "log_output s' = log_output ?W" and srv: "served s' = served ?W"
    and frame: "\<forall>w' key. (w', key) \<noteq> (7, ''Access-Control-Allow-Methods'')
                  \<longrightarrow> headers s' w' key = headers ?W w' key"
    by blast
  from frame have h1: "headers s' 7 ''Content-Type'' = Some [''text/plain'']"
    by simp
  from frame have h2: "headers s' 8 ''Access-Control-Allow-Methods'' = None"
    by simp
  from call have "s' = CORSMethodMiddleware 0 (\<lambda>w r s. s) 7 options_x ?W"
    by simp
  then have h3: "headers s' 7 ''Access-Control-Allow-Methods'' = Some [''GET,OPTIONS,POST'']"
    by (simp add: CORS_eq getAllMethodsForRoute_def world_with_def pathRoute_def options_x_def
        RouteMatch_zero_def MethodOptions_def Header_Set_def)
  from log srv have "log_output s' = []" "served s' = []"
    by (simp_all add: world_with_def)
  with call h1 h2 h3 show ?thesis
    by blast
qed

section \<open>The router is read when the request is served\<close>

lemma getAllMethods_loop_append:
  "getAllMethods_loop (xs @ ys) req acc =
     (case getAllMethods_loop xs req acc of
        (allMethods, None) \<Rightarrow> getAllMethods_loop ys req allMethods
      | (allMethods, Some err) \<Rightarrow> (allMethods, Some err))"
proof (induction xs arbitrary: acc)
  case Nil
  show ?case by simp
next
  case (Cons route rest)
  show ?case
    unfolding append_Cons getAllMethods_loop_step Cons.IH
    by (simp split: option.splits)
qed

text \<open>
  C8. The middleware holds the reference to the router, not a copy of its route list:
  the handler built by \<^verbatim>\<open>CORSMethodMiddleware(r)\<close> reads the route list the router has
  when the request is served. For every route, request and world: if by then the route
  has been added after the routes the router had in the world \<open>s\<close> where the middleware
  was built, the aggregation is the loop over the earlier routes carried on through the
  new route, and the handler acts on that result. So the new route is visited after the
  earlier ones: when they give the list \<open>old\<close>, the result is \<open>old\<close> followed by the
  methods the route reports if it contributes, the route's error if its report fails,
  and \<open>old\<close> if it does not contribute; the loop reaches the new route unless an earlier
  contributing route already failed, which ends every aggregation.
\<close>

theorem CORS_sees_later_registration:
  assumes "routes (heap s' r) = routes (heap s r) @ [route]"
  shows "getAllMethodsForRoute (heap s' r) req =
       (case getAllMethodsForRoute (heap s r) req of
          (old, Some err) \<Rightarrow> (old, Some err)
        | (old, None) \<Rightarrow>
            if contributes req route then
              (case GetMethods route of
                 (methods, Some err) \<Rightarrow> ([], Some err)
               | (methods, None) \<Rightarrow> (old @ methods, None))
            else (old, None))
     \<and> getAllMethodsForRoute (heap s' r) req =
         (case getAllMethodsForRoute (heap s r) req of
            (old, Some err) \<Rightarrow> (old, Some err)
          | (old, None) \<Rightarrow> getAllMethods_loop [route] req old)
     \<and> CORSMethodMiddleware r nxt w req s' =
         nxt w req
           (if snd (getAllMethodsForRoute (heap s' r) req) = None
               \<and> MethodOptions \<in> set (fst (getAllMethodsForRoute (heap s' r) req))
            then Header_Set w ''Access-Control-Allow-Methods''
                   (strings_Join (fst (getAllMethodsForRoute (heap s' r) req)) '','') s'
            else s')
     \<and> (getAllMethodsForRoute (heap s r) req = (old, None) \<and> contributes req route
          \<and> GetMethods route = (methods, None) \<longrightarrow>
          getAllMethodsForRoute (heap s' r) req = (old @ methods, None)
          \<and> CORSMethodMiddleware r nxt w req s' =
              nxt w req
                (if MethodOptions \<in> set (old @ methods)
                 then Header_Set w ''Access-Control-Allow-Methods''
                        (strings_Join (old @ methods) '','') s'
                 else s'))"
proof -
  have loop: "getAllMethodsForRoute (heap s' r) req =
         (case getAllMethodsForRoute (heap s r) req of
            (old, Some err) \<Rightarrow> (old, Some err)
          | (old, None) \<Rightarrow> getAllMethods_loop [route] req old)"
    unfolding getAllMethodsForRoute_def assms getAllMethods_loop_append
    by (simp split: prod.splits option.splits)
  have one: "getAllMethods_loop [route] req old' =
      (if contributes req route then
         (case GetMethods route of
            (methods, Some err) \<Rightarrow> ([], Some err)
          | (methods, None) \<Rightarrow> (old' @ methods, None))
       else (old', None))" for old'
    unfolding getAllMethods_loop_step
    by (cases "GetMethods route") (simp split: option.splits)
  have explicit: "getAllMethodsForRoute (heap s' r) req =
       (case getAllMethodsForRoute (heap s r) req of
          (old, Some err) \<Rightarrow> (old, Some err)
        | (old, None) \<Rightarrow>
            if contributes req route then
              (case GetMethods route of
                 (methods, Some err) \<Rightarrow> ([], Some err)
               | (methods, None) \<Rightarrow> (old @ methods, None))
            else (old, None))"
    unfolding loop
    by (cases "getAllMethodsForRoute (heap s r) req")
       (simp add: one del: getAllMethods_loop.simps(2) split: option.splits)
  have cors: "CORSMethodMiddleware r nxt w req s' =
         nxt w req
           (if snd (getAllMethodsForRoute (heap s' r) req) = None
               \<and> MethodOptions \<in> set (fst (getAllMethodsForRoute (heap s' r) req))
            then Header_Set w ''Access-Control-Allow-Methods''
                   (strings_Join (fst (getAllMethodsForRoute (heap s' r) req)) '','') s'
            else s')"
    by (rule CORS_eq)
  have special: "getAllMethodsForRoute (heap s' r) req = (old @ methods, None)
          \<and> CORSMethodMiddleware r nxt w req s' =
              nxt w req
                (if MethodOptions \<in> set (old @ methods)
                 then Header_Set w ''Access-Control-Allow-Methods''
                        (strings_Join (old @ methods) '','') s'
                 else s')"
    if h: "getAllMethodsForRoute (heap s r) req = (old, None) \<and> contributes req route
          \<and> GetMethods route = (methods, None)"
  proof -
    from h have agg: "getAllMethodsForRoute (heap s' r) req = (old @ methods, None)"
      by (simp add: explicit)
    then show ?thesis
      by (simp add: CORS_eq)
  qed
  from explicit loop cors special show ?thesis
    by blast
qed

theorem CORS_sees_later_registration_witness:
  "getAllMethodsForRoute (heap (world_with [pathRoute ''/x'' [''GET'']]) 0) options_x
     = ([''GET''], None)
   \<and> contributes options_x (pathRoute ''/x'' [''OPTIONS'', ''POST''] :: (Request, unit) Route)
   \<and> headers (CORSMethodMiddleware 0 terminal 7 options_x (world_with [pathRoute ''/x'' [''GET'']]))
        7 ''Access-Control-Allow-Methods'' = None
   \<and> headers (CORSMethodMiddleware 0 terminal 7 options_x
        ((world_with [pathRoute ''/x'' [''GET'']])
           \<lparr>heap := (heap (world_with [pathRoute ''/x'' [''GET'']]))
              (0 := (heap (world_with [pathRoute ''/x'' [''GET'']]) 0)
                 \<lparr>routes := routes (heap (world_with [pathRoute ''/x'' [''GET'']]) 0)
                     @ [pathRoute ''/x'' [''OPTIONS'', ''POST'']]\<rparr>)\<rparr>))
        7 ''Access-Control-Allow-Methods'' = Some [''GET,OPTIONS,POST'']
   \<and> getAllMethodsForRoute
        (heap (world_with [noMethodsRoute ''/x'', pathRoute ''/x'' [''OPTIONS'', ''POST'']]) 0)
        options_x = ([], Some (Err ''mux: route doesn't have methods''))"
proof -
  let ?W = "world_with [pathRoute ''/x'' [''GET'']]"
  let ?new = "pathRoute ''/x'' [''OPTIONS'', ''POST''] :: (Request, unit) Route"
  let ?W' = "?W\<lparr>heap := (heap ?W)(0 := (heap ?W 0)\<lparr>routes := routes (heap ?W 0) @ [?new]\<rparr>)\<rparr>"
  let ?F = "world_with [noMethodsRoute ''/x'']"
  let ?F' = "world_with [noMethodsRoute ''/x'', ?new]"
  have r: "routes (heap ?W' 0) = routes (heap ?W 0) @ [?new]"
    by simp
  have a: "getAllMethodsForRoute (heap ?W 0) options_x = ([''GET''], None)"
    by (simp add: getAllMethodsForRoute_def world_with_def pathRoute_def options_x_def
        RouteMatch_zero_def)
  have c: "contributes options_x ?new"
    by (simp add: contributes_def pathRoute_def options_x_def RouteMatch_zero_def)
  have g: "GetMethods ?new = ([''OPTIONS'', ''POST''], None)"
    by (simp add: pathRoute_def)
  have before: "headers (CORSMethodMiddleware 0 terminal 7 options_x ?W)
        7 ''Access-Control-Allow-Methods'' = None"
    by (simp add: CORS_eq a MethodOptions_def terminal_def) (simp add: world_with_def)
  from a c g
    CORS_sees_later_registration[OF r, where nxt = terminal and w = 7 and req = options_x
      and old = "[''GET'']" and methods = "[''OPTIONS'', ''POST'']"]
  have after: "headers (CORSMethodMiddleware 0 terminal 7 options_x ?W')
        7 ''Access-Control-Allow-Methods'' = Some [''GET,OPTIONS,POST'']"
    by (simp add: MethodOptions_def terminal_def Header_Set_def)
  have rf: "routes (heap ?F' 0) = routes (heap ?F 0) @ [?new]"
    by (simp add: world_with_def)
  have f: "getAllMethodsForRoute (heap ?F 0) options_x
      = ([], Some (Err ''mux: route doesn't have methods''))"
    by (simp add: getAllMethodsForRoute_def world_with_def noMethodsRoute_def options_x_def
        RouteMatch_zero_def)
  from CORS_sees_later_registration[OF rf, where req = options_x]
  have failed: "getAllMethodsForRoute (heap ?F' 0) options_x
      = ([], Some (Err ''mux: route doesn't have methods''))"
    by (simp add: f)
  from a c before after failed show ?thesis
    by simp
qed

section \<open>The logging adapter\<close>

text \<open>
  C7. A request served through a named-logging adapter should leave exactly one record
  "Executing middleware: " followed by the name, written before the wrapped
  interceptor's handler runs, as the adapter in the spec's words does. The code writes
  the record in the handler it passes to the wrapped interceptor as its next handler. At
  these inputs the two differ: the interceptor \<open>deny\<close> runs (it sets its header) and
  never delegates, and the code leaves no record where the spec's adapter leaves one; the
  interceptor \<open>announce\<close> writes its own line before delegating, and the code has the
  record after that line where the spec's adapter has it first.
\<close>

theorem logging_adapter_record_missing_or_late:
  "log_output (Middleware (MiddlewareFuncWithLogging deny ''auth'') terminal 7 options_x
       (world_with [])) = []
   \<and> headers (Middleware (MiddlewareFuncWithLogging deny ''auth'') terminal 7 options_x
       (world_with [])) 7 ''X-Denied'' = Some [''1'']
   \<and> log_output (LoggingAdapter_spec deny ''auth'' terminal 7 options_x (world_with []))
       = [''Executing middleware: auth'']
   \<and> log_output (Middleware (MiddlewareFuncWithLogging announce ''a'') terminal 7 options_x
       (world_with [])) = [''wrapped handler runs'', ''Executing middleware: a'']
   \<and> log_output (LoggingAdapter_spec announce ''a'' terminal 7 options_x (world_with []))
       = [''Executing middleware: a'', ''wrapped handler runs'']"
  by (simp add: LoggingAdapter_spec_def deny_def announce_def terminal_def log_Printf_def
      Header_Set_def world_with_def)

end
